theory Spec2Isabelle
  imports Main
begin

section \<open>Strings and POSIX paths\<close>

text \<open>
  The analysis of \<^verbatim>\<open>commands.js\<close> uses three string methods
  (\<^verbatim>\<open>startsWith\<close>, \<^verbatim>\<open>split('/')\<close>, \<^verbatim>\<open>replace\<close> with a string pattern) and three
  functions of Node's \<^verbatim>\<open>path\<close> module (\<^verbatim>\<open>join\<close>, \<^verbatim>\<open>resolve\<close>, \<^verbatim>\<open>dirname\<close>), here in
  their POSIX variant. Strings are lists of characters; every character that the code
  inspects (\<^verbatim>\<open>.\<close>, \<^verbatim>\<open>/\<close>) is ASCII.
\<close>

type_synonym path = string

definition startsWith :: "string \<Rightarrow> string \<Rightarrow> bool" where
  "startsWith s p = (take (length p) s = p)"

text \<open>\<^verbatim>\<open>s.split('/')\<close>: the pieces between the separators; never an empty array.\<close>

fun split :: "string \<Rightarrow> string list" where
  "split [] = [[]]"
| "split (c # cs) =
     (if c = CHR ''/'' then [] # split cs
      else (case split cs of [] \<Rightarrow> [[c]] | s # ss \<Rightarrow> (c # s) # ss))"

text \<open>\<^verbatim>\<open>s.replace(pat, rep)\<close> with a string pattern: the first occurrence only.\<close>

fun replace :: "string \<Rightarrow> string \<Rightarrow> string \<Rightarrow> string" where
  "replace pat rep [] = (if pat = [] then rep else [])"
| "replace pat rep (c # cs) =
     (if startsWith (c # cs) pat then rep @ drop (length pat) (c # cs)
      else c # replace pat rep cs)"

fun joinSegments :: "string list \<Rightarrow> string" where
  "joinSegments [] = []"
| "joinSegments [s] = s"
| "joinSegments (s # t # ss) = s @ CHR ''/'' # joinSegments (t # ss)"

text \<open>
  \<^verbatim>\<open>normalizeString(path, allowAboveRoot)\<close> of Node's path module, segment by segment:
  empty segments and \<^verbatim>\<open>.\<close> are dropped, \<^verbatim>\<open>..\<close> removes the segment before it; when
  there is none (or it is itself \<^verbatim>\<open>..\<close>) it is kept only if \<open>allowAboveRoot\<close>. The
  result so far, \<open>res\<close>, is held last segment first.
\<close>

fun normalizeSegments :: "bool \<Rightarrow> string list \<Rightarrow> string list \<Rightarrow> string list" where
  "normalizeSegments allowAboveRoot res [] = rev res"
| "normalizeSegments allowAboveRoot res (s # ss) =
     (if s = [] \<or> s = ''.'' then normalizeSegments allowAboveRoot res ss
      else if s = ''..'' then
        (case res of
           [] \<Rightarrow> normalizeSegments allowAboveRoot (if allowAboveRoot then [''..''] else []) ss
         | r # rs \<Rightarrow>
             if r = ''..''
             then normalizeSegments allowAboveRoot (if allowAboveRoot then ''..'' # res else res) ss
             else normalizeSegments allowAboveRoot rs ss)
      else normalizeSegments allowAboveRoot (s # res) ss)"

definition normalizeString :: "string \<Rightarrow> bool \<Rightarrow> string" where
  "normalizeString p allowAboveRoot =
     joinSegments (normalizeSegments allowAboveRoot [] (split p))"

definition normalizePath :: "string \<Rightarrow> string" where
  "normalizePath p =
     (if p = [] then ''.''
      else
        let isAbsolute = (hd p = CHR ''/'');
            trailingSeparator = (last p = CHR ''/'');
            n = normalizeString p (\<not> isAbsolute)
        in if n = [] then (if isAbsolute then ''/'' else if trailingSeparator then ''./'' else ''.'')
           else (if isAbsolute then ''/'' else []) @ n @ (if trailingSeparator then ''/'' else []))"

text \<open>
  \<^verbatim>\<open>path.join(...args)\<close>: the non-empty arguments joined by \<^verbatim>\<open>/\<close>, then normalised by
  \<^verbatim>\<open>path.normalize\<close> (\<open>normalizePath\<close>), which keeps a trailing separator.
\<close>

definition join :: "string list \<Rightarrow> string" where
  "join args =
     (case filter (\<lambda>a. a \<noteq> []) args of
        [] \<Rightarrow> ''.''
      | a # as \<Rightarrow> normalizePath (joinSegments (a # as)))"

text \<open>
  \<^verbatim>\<open>path.resolve(...args)\<close>: the arguments are taken from the right until one is absolute;
  the working directory comes after the leftmost one. \<open>resolvePaths\<close> receives them
  right to left and returns the concatenation and whether it is absolute.
\<close>

fun resolvePaths :: "string list \<Rightarrow> string \<Rightarrow> string \<times> bool" where
  "resolvePaths [] resolvedPath = (resolvedPath, False)"
| "resolvePaths (p # ps) resolvedPath =
     (if p = [] then resolvePaths ps resolvedPath
      else if hd p = CHR ''/'' then (p @ CHR ''/'' # resolvedPath, True)
      else resolvePaths ps (p @ CHR ''/'' # resolvedPath))"

definition resolve :: "path \<Rightarrow> string list \<Rightarrow> path" where
  "resolve cwd args =
     (case resolvePaths (rev args @ [cwd]) [] of
        (resolvedPath, resolvedAbsolute) \<Rightarrow>
          let n = normalizeString resolvedPath (\<not> resolvedAbsolute)
          in if resolvedAbsolute then CHR ''/'' # n
             else if n \<noteq> [] then n else ''.'')"

text \<open>
  \<^verbatim>\<open>path.dirname(p)\<close>: scanning from the last character down to index 1, the first
  separator after a non-separator ends the directory part. \<open>dirnameEnd\<close> walks the
  characters of index \<open>\<ge> 1\<close> in reverse and returns that index.
\<close>

fun dirnameEnd :: "string \<Rightarrow> bool \<Rightarrow> nat option" where
  "dirnameEnd [] matchedSlash = None"
| "dirnameEnd (c # cs) matchedSlash =
     (if c = CHR ''/'' then (if \<not> matchedSlash then Some (Suc (length cs)) else dirnameEnd cs matchedSlash)
      else dirnameEnd cs False)"

definition dirname :: "path \<Rightarrow> path" where
  "dirname p =
     (if p = [] then ''.''
      else
        let hasRoot = (hd p = CHR ''/'')
        in case dirnameEnd (rev (tl p)) True of
             None \<Rightarrow> (if hasRoot then ''/'' else ''.'')
           | Some e \<Rightarrow> if hasRoot \<and> e = 1 then ''//'' else take e p)"

section \<open>Syntax trees\<close>

text \<open>
  The parser (acorn) and the tree walker (acorn-walk's \<^verbatim>\<open>simple\<close>) are libraries. Of a
  syntax tree the analysis sees only the nodes for which it registers a callback,
  \<^verbatim>\<open>ImportDeclaration\<close> and \<^verbatim>\<open>CallExpression\<close>, in the order the walker reaches them, so
  a parsed file is the list of these nodes in that order. Of an import declaration the
  callback reads \<^verbatim>\<open>node.source.value\<close> (always a string); of a call it reads
  \<^verbatim>\<open>node.callee.name\<close> (absent unless the callee is an identifier) and
  \<^verbatim>\<open>node.arguments[0]\<close>, its \<^verbatim>\<open>type\<close> and, for a \<^verbatim>\<open>Literal\<close>, its \<^verbatim>\<open>value\<close>.
\<close>

datatype jsvalue =
    JString string
  | JNumber int
  | JBigInt int
  | JBoolean bool
  | JNull
  | JRegExp string

datatype expression =
    Literal jsvalue
  | OtherExpression

datatype node =
    ImportDeclaration string
  | CallExpression "string option" "expression list"

text \<open>A thrown \<^verbatim>\<open>Error\<close>, with its message.\<close>

datatype error = Error string

text \<open>
  Of the \<^verbatim>\<open>Stats\<close> object the program reads \<^verbatim>\<open>size\<close>, \<^verbatim>\<open>mtime\<close> (only through
  \<^verbatim>\<open>toISOString()\<close>, so \<open>st_mtime\<close> is that string) and \<^verbatim>\<open>isDirectory()\<close>. Sizes and
  their sums are natural numbers; the program adds them as doubles, which is the same
  sum as long as it stays below \<open>2\<^sup>5\<^sup>3\<close>.
\<close>

record stats =
  st_size :: nat
  st_mtime :: string
  st_isDirectory :: bool

record unused_file =
  path :: string
  lastModified :: string
  sizeBytes :: nat

record unused_dependency =
  name :: string
  version :: string
  depSize :: nat

record analysis =
  unusedDependencies :: "unused_dependency list"
  unusedFiles :: "unused_file list"

text \<open>
  Of the decoded manifest the program reads the two dependency objects, each absent
  or a list of entries from name to version; the other properties pass through
  \<^verbatim>\<open>JSON.parse\<close> and \<^verbatim>\<open>JSON.stringify\<close> untouched and are left to the environment.
\<close>

record package_json =
  dependencies :: "(string \<times> string) list option"
  devDependencies :: "(string \<times> string) list option"

section \<open>The environment\<close>

text \<open>
  Everything the program asks of the outside: the file system calls of \<^verbatim>\<open>fs/promises\<close>,
  \<^verbatim>\<open>glob\<close>, \<^verbatim>\<open>execSync\<close>, \<^verbatim>\<open>JSON\<close> and acorn. A file system call takes the state of
  the world \<open>'w\<close> and returns its outcome (\<open>Inl\<close> when the call throws) with the state
  after it. \<open>glob\<close> takes the pattern, the ignore list, \<^verbatim>\<open>cwd\<close> and \<^verbatim>\<open>nodir\<close>, and returns
  absolute paths.
\<close>

record 'w env =
  cwd :: path
  readFile :: "'w \<Rightarrow> path \<Rightarrow> (error + string) \<times> 'w"
  stat :: "'w \<Rightarrow> path \<Rightarrow> (error + stats) \<times> 'w"
  glob :: "'w \<Rightarrow> string \<Rightarrow> string list \<Rightarrow> path \<Rightarrow> bool \<Rightarrow> (error + path list) \<times> 'w"
  writeFile :: "'w \<Rightarrow> path \<Rightarrow> string \<Rightarrow> (error + unit) \<times> 'w"
  unlink :: "'w \<Rightarrow> path \<Rightarrow> (error + unit) \<times> 'w"
  rm :: "'w \<Rightarrow> path \<Rightarrow> (error + unit) \<times> 'w"
  readdir :: "'w \<Rightarrow> path \<Rightarrow> (error + string list) \<times> 'w"
  rmdir :: "'w \<Rightarrow> path \<Rightarrow> (error + unit) \<times> 'w"
  execSync :: "'w \<Rightarrow> string \<Rightarrow> path \<Rightarrow> (error + unit) \<times> 'w"
  parseJSON :: "string \<Rightarrow> error + package_json"
  stringifyJSON :: "package_json \<Rightarrow> string"
  parse :: "string \<Rightarrow> error + node list"

section \<open>analyzeProject\<close>

text \<open>
  The three accumulators of \<^verbatim>\<open>analyzeProject\<close> and the console. \<open>fileImports\<close> is the
  \<^verbatim>\<open>Map\<close> whose values are all \<^verbatim>\<open>true\<close>; \<open>unusedFilesAcc\<close> is the local array
  \<^verbatim>\<open>unusedFiles\<close>.
\<close>

record scan =
  usedDependencies :: "string set"
  fileImports :: "path \<rightharpoonup> bool"
  unusedFilesAcc :: "unused_file list"
  console :: "string list"

text \<open>
  What \<^verbatim>\<open>requirePath.startsWith('.')\<close> throws when \<^verbatim>\<open>requirePath\<close> is not a string: \<^verbatim>\<open>null\<close>
  has no properties, any other value has no method of that name.
\<close>

definition typeError :: "jsvalue \<Rightarrow> error" where
  "typeError v =
     (case v of
        JNull \<Rightarrow> Error ''Cannot read properties of null (reading 'startsWith')''
      | _ \<Rightarrow> Error ''requirePath.startsWith is not a function'')"

text \<open>
  The body shared by both callbacks, for a specifier that is a string: an external
  specifier adds its first segment to \<open>usedDependencies\<close>, any other one stores the
  resolved path in \<open>fileImports\<close> and sets \<^verbatim>\<open>isUsed\<close>.
\<close>

definition track :: "path \<Rightarrow> path \<Rightarrow> string \<Rightarrow> scan \<times> bool \<Rightarrow> scan \<times> bool" where
  "track wd file importPath s =
     (if \<not> startsWith importPath ''.'' \<and> \<not> startsWith importPath ''/''
      then (let packageName = hd (split importPath)
            in ((fst s)\<lparr>usedDependencies := insert packageName (usedDependencies (fst s))\<rparr>, snd s))
      else (let resolvedPath = resolve wd [dirname file, importPath]
            in ((fst s)\<lparr>fileImports := (fileImports (fst s))(resolvedPath \<mapsto> True)\<rparr>, True)))"

text \<open>
  The callbacks. In \<^verbatim>\<open>CallExpression\<close> the guard is \<^verbatim>\<open>arg && arg.type === 'Literal'\<close>; the
  value of a literal that is not a string (a number, a bigint, a boolean, \<^verbatim>\<open>null\<close>, a
  regular expression) has no \<^verbatim>\<open>startsWith\<close>, and the call throws a \<^verbatim>\<open>TypeError\<close>.
\<close>

fun visit :: "path \<Rightarrow> path \<Rightarrow> node \<Rightarrow> scan \<times> bool \<Rightarrow> error + scan \<times> bool" where
  "visit wd file (ImportDeclaration importPath) s = Inr (track wd file importPath s)"
| "visit wd file (CallExpression callee arguments) s =
     (if callee = Some ''require'' then
        (case arguments of
           [] \<Rightarrow> Inr s
         | Literal (JString requirePath) # _ \<Rightarrow> Inr (track wd file requirePath s)
         | Literal v # _ \<Rightarrow> Inl (typeError v)
         | OtherExpression # _ \<Rightarrow> Inr s)
      else Inr s)"

text \<open>
  The walk stops at the first callback that throws; what earlier callbacks stored in
  the shared accumulators stays.
\<close>

fun walk :: "path \<Rightarrow> path \<Rightarrow> node list \<Rightarrow> scan \<times> bool \<Rightarrow> error option \<times> scan \<times> bool" where
  "walk wd file [] s = (None, s)"
| "walk wd file (n # ns) s =
     (case visit wd file n s of
        Inl e \<Rightarrow> (Some e, s)
      | Inr s' \<Rightarrow> walk wd file ns s')"

definition warn :: "string \<Rightarrow> scan \<Rightarrow> scan" where
  "warn msg sc = sc\<lparr>console := console sc @ [msg]\<rparr>"

definition parseWarning :: "path \<Rightarrow> error \<Rightarrow> string" where
  "parseWarning file e = (case e of Error m \<Rightarrow> ''Warning: Could not parse '' @ file @ '': '' @ m)"

text \<open>
  The \<^verbatim>\<open>try\<close> block of the loop body, for a file whose text and metadata have been read:
  parse, walk, and then classify the file against the accumulators as they are at this
  moment.
\<close>

definition analyzeSource :: "'w env \<Rightarrow> path \<Rightarrow> path \<Rightarrow> string \<Rightarrow> stats \<Rightarrow> scan \<Rightarrow> scan" where
  "analyzeSource E projectPath file content fileStat sc =
     (case parse E content of
        Inl e \<Rightarrow> warn (parseWarning file e) sc
      | Inr ast \<Rightarrow>
          (case walk (cwd E) file ast (sc, False) of
             (Some e, sc', isUsed) \<Rightarrow> warn (parseWarning file e) sc'
           | (None, sc', isUsed) \<Rightarrow>
               if \<not> isUsed \<and> fileImports sc' file = None
               then sc'\<lparr>unusedFilesAcc := unusedFilesAcc sc' @
                      [\<lparr>path = replace (projectPath @ ''/'') [] file,
                        lastModified = st_mtime fileStat,
                        sizeBytes = st_size fileStat\<rparr>]\<rparr>
               else sc'))"

text \<open>The loop over the files: reading the text or the metadata is outside the \<^verbatim>\<open>try\<close>.\<close>

fun analyzeFiles :: "'w env \<Rightarrow> path \<Rightarrow> path list \<Rightarrow> scan \<Rightarrow> 'w \<Rightarrow> (error + scan) \<times> 'w" where
  "analyzeFiles E projectPath [] sc w = (Inr sc, w)"
| "analyzeFiles E projectPath (file # files) sc w =
     (case readFile E w file of
        (Inl e, w1) \<Rightarrow> (Inl e, w1)
      | (Inr content, w1) \<Rightarrow>
          (case stat E w1 file of
             (Inl e, w2) \<Rightarrow> (Inl e, w2)
           | (Inr fileStat, w2) \<Rightarrow>
               analyzeFiles E projectPath files
                 (analyzeSource E projectPath file content fileStat sc) w2))"

text \<open>
  \<^verbatim>\<open>getFolderSize\<close>: the sizes of all files below a folder, 0 when anything throws. It
  never throws itself, so the \<^verbatim>\<open>catch\<close> around its call in \<^verbatim>\<open>analyzeProject\<close> is never
  entered.
\<close>

fun sumSizes :: "'w env \<Rightarrow> path list \<Rightarrow> nat \<Rightarrow> 'w \<Rightarrow> (error + nat) \<times> 'w" where
  "sumSizes E [] totalSize w = (Inr totalSize, w)"
| "sumSizes E (file # files) totalSize w =
     (case stat E w file of
        (Inl e, w1) \<Rightarrow> (Inl e, w1)
      | (Inr s, w1) \<Rightarrow> sumSizes E files (totalSize + st_size s) w1)"

definition getFolderSize :: "'w env \<Rightarrow> path \<Rightarrow> 'w \<Rightarrow> nat \<times> 'w" where
  "getFolderSize E folderPath w =
     (case glob E w ''**/*'' [] folderPath True of
        (Inl e, w1) \<Rightarrow> (0, w1)
      | (Inr files, w1) \<Rightarrow>
          (case sumSizes E files 0 w1 of
             (Inl e, w2) \<Rightarrow> (0, w2)
           | (Inr totalSize, w2) \<Rightarrow> (totalSize, w2)))"

text \<open>
  \<^verbatim>\<open>{...packageJson.dependencies, ...packageJson.devDependencies}\<close>: a key that is
  already there keeps its place and takes the new value.
\<close>

fun assign :: "(string \<times> string) list \<Rightarrow> string \<times> string \<Rightarrow> (string \<times> string) list" where
  "assign [] kv = [kv]"
| "assign (p # ps) kv = (if fst p = fst kv then kv # ps else p # assign ps kv)"

definition spread :: "(string \<times> string) list \<Rightarrow> (string \<times> string) list option \<Rightarrow> (string \<times> string) list" where
  "spread obj src = (case src of None \<Rightarrow> obj | Some kvs \<Rightarrow> foldl assign obj kvs)"

text \<open>
  \<^verbatim>\<open>Object.entries\<close> lists the keys that are array indices first, in ascending order,
  and then the other keys in the order of their creation. An array index is the
  decimal numeral, without leading zeros, of a number up to \<open>2\<^sup>3\<^sup>2 - 2\<close>.
\<close>

fun decimal :: "string \<Rightarrow> int \<Rightarrow> int option" where
  "decimal [] n = Some n"
| "decimal (c # cs) n =
     (case map_of (zip ''0123456789'' [0, 1, 2, 3, 4, 5, 6, 7, 8, 9]) c of
        None \<Rightarrow> None
      | Some d \<Rightarrow> decimal cs (10 * n + d))"

definition arrayIndex :: "string \<Rightarrow> int option" where
  "arrayIndex s =
     (if s = [] \<or> (hd s = CHR ''0'' \<and> s \<noteq> ''0'') then None
      else (case decimal s 0 of
              None \<Rightarrow> None
            | Some n \<Rightarrow> if n < 4294967295 then Some n else None))"

definition indexOf :: "string \<times> string \<Rightarrow> int" where
  "indexOf kv = (case arrayIndex (fst kv) of None \<Rightarrow> 0 | Some n \<Rightarrow> n)"

definition objectEntries :: "(string \<times> string) list \<Rightarrow> (string \<times> string) list" where
  "objectEntries obj =
     sort_key indexOf (filter (\<lambda>kv. arrayIndex (fst kv) \<noteq> None) obj)
     @ filter (\<lambda>kv. arrayIndex (fst kv) = None) obj"

definition allDependencies :: "package_json \<Rightarrow> (string \<times> string) list" where
  "allDependencies packageJson =
     objectEntries (spread (spread [] (dependencies packageJson)) (devDependencies packageJson))"

fun findUnusedDependencies ::
  "'w env \<Rightarrow> path \<Rightarrow> string set \<Rightarrow> (string \<times> string) list \<Rightarrow> 'w \<Rightarrow> unused_dependency list \<times> 'w" where
  "findUnusedDependencies E projectPath used [] w = ([], w)"
| "findUnusedDependencies E projectPath used ((n, v) # entries) w =
     (if n \<notin> used then
        (case getFolderSize E (join [projectPath, ''node_modules'', n]) w of
           (sz, w1) \<Rightarrow>
             (case findUnusedDependencies E projectPath used entries w1 of
                (ds, w2) \<Rightarrow> (\<lparr>name = n, version = v, depSize = sz\<rparr> # ds, w2)))
      else findUnusedDependencies E projectPath used entries w)"

definition sourcePattern :: string where
  "sourcePattern = ''**/*.{js,jsx,ts,tsx}''"

definition sourceIgnore :: "string list" where
  "sourceIgnore = [''**/node_modules/**'', ''**/dist/**'', ''**/build/**'', ''**/.git/**'']"

definition emptyScan :: scan where
  "emptyScan = \<lparr>usedDependencies = {}, fileImports = Map.empty, unusedFilesAcc = [], console = []\<rparr>"

text \<open>The body of the outer \<^verbatim>\<open>try\<close>; the console is returned beside the result.\<close>

definition analyzeBody :: "'w env \<Rightarrow> path \<Rightarrow> 'w \<Rightarrow> (error + analysis \<times> string list) \<times> 'w" where
  "analyzeBody E projectPath w =
     (case readFile E w (join [projectPath, ''package.json'']) of
        (Inl e, w1) \<Rightarrow> (Inl e, w1)
      | (Inr text, w1) \<Rightarrow>
          (case parseJSON E text of
             Inl e \<Rightarrow> (Inl e, w1)
           | Inr packageJson \<Rightarrow>
               (case glob E w1 sourcePattern sourceIgnore projectPath False of
                  (Inl e, w2) \<Rightarrow> (Inl e, w2)
                | (Inr files, w2) \<Rightarrow>
                    (case analyzeFiles E projectPath files emptyScan w2 of
                       (Inl e, w3) \<Rightarrow> (Inl e, w3)
                     | (Inr sc, w3) \<Rightarrow>
                         (case findUnusedDependencies E projectPath (usedDependencies sc)
                                 (allDependencies packageJson) w3 of
                            (ds, w4) \<Rightarrow>
                              (Inr (\<lparr>unusedDependencies = ds, unusedFiles = unusedFilesAcc sc\<rparr>,
                                    console sc), w4))))))"

definition analyzeProject :: "'w env \<Rightarrow> path \<Rightarrow> 'w \<Rightarrow> (error + analysis \<times> string list) \<times> 'w" where
  "analyzeProject E projectPath w =
     (case analyzeBody E projectPath w of
        (Inl (Error m), w') \<Rightarrow> (Inl (Error (''Failed to analyze project: '' @ m)), w')
      | (Inr r, w') \<Rightarrow> (Inr r, w'))"

section \<open>cleanProject\<close>

record cleanup =
  removedDependencies :: "string list"
  removedFiles :: "string list"
  removedDirs :: "string list"
  freedSpace :: nat

text \<open>
  \<^verbatim>\<open>if (obj?.[k]) delete obj[k]\<close>: the entry goes when its value is truthy, which for
  a version string means non-empty.
\<close>

definition deleteIfTruthy :: "string \<Rightarrow> (string \<times> string) list option \<Rightarrow> (string \<times> string) list option" where
  "deleteIfTruthy k obj =
     (case obj of
        None \<Rightarrow> None
      | Some kvs \<Rightarrow>
          (case map_of kvs k of
             None \<Rightarrow> Some kvs
           | Some v \<Rightarrow> if v \<noteq> [] then Some (filter (\<lambda>p. fst p \<noteq> k) kvs) else Some kvs))"

text \<open>The \<^verbatim>\<open>try\<close> block for one dependency: read, decode, delete, write back.\<close>

definition removeDependency :: "'w env \<Rightarrow> path \<Rightarrow> unused_dependency \<Rightarrow> 'w \<Rightarrow> (error + unit) \<times> 'w" where
  "removeDependency E projectPath dep w =
     (let packageJsonPath = join [projectPath, ''package.json'']
      in case readFile E w packageJsonPath of
           (Inl e, w1) \<Rightarrow> (Inl e, w1)
         | (Inr text, w1) \<Rightarrow>
             (case parseJSON E text of
                Inl e \<Rightarrow> (Inl e, w1)
              | Inr packageJson \<Rightarrow>
                  writeFile E w1 packageJsonPath
                    (stringifyJSON E
                       (packageJson\<lparr>dependencies := deleteIfTruthy (name dep) (dependencies packageJson),
                                    devDependencies := deleteIfTruthy (name dep) (devDependencies packageJson)\<rparr>))))"

definition errorMessage :: "error \<Rightarrow> string" where
  "errorMessage e = (case e of Error m \<Rightarrow> m)"

fun removeDependencies ::
  "'w env \<Rightarrow> path \<Rightarrow> unused_dependency list \<Rightarrow> cleanup \<Rightarrow> string list \<Rightarrow> 'w \<Rightarrow> cleanup \<times> string list \<times> 'w" where
  "removeDependencies E projectPath [] acc out w = (acc, out, w)"
| "removeDependencies E projectPath (dep # deps) acc out w =
     (case removeDependency E projectPath dep w of
        (Inl e, w1) \<Rightarrow>
          removeDependencies E projectPath deps acc
            (out @ [''Error removing dependency '' @ name dep @ '': '' @ errorMessage e]) w1
      | (Inr u, w1) \<Rightarrow>
          removeDependencies E projectPath deps
            (acc\<lparr>removedDependencies := removedDependencies acc @ [name dep]\<rparr>) out w1)"

text \<open>
  The loop over the unused files. The first \<^verbatim>\<open>stat\<close> has its own \<^verbatim>\<open>catch\<close>; the size of
  the second one is added to \<^verbatim>\<open>freedSpace\<close> before \<^verbatim>\<open>unlink\<close> is called, and the path is
  pushed after it.
\<close>

fun removeFiles ::
  "'w env \<Rightarrow> path \<Rightarrow> unused_file list \<Rightarrow> cleanup \<Rightarrow> string list \<Rightarrow> 'w \<Rightarrow> cleanup \<times> string list \<times> 'w" where
  "removeFiles E projectPath [] acc out w = (acc, out, w)"
| "removeFiles E projectPath (file # files) acc out w =
     (let fullPath = resolve (cwd E) [projectPath, path file];
          warning = (\<lambda>e. ''Warning: Could not remove file '' @ path file @ '': '' @ errorMessage e)
      in case stat E w fullPath of
           (Inl e, w1) \<Rightarrow> removeFiles E projectPath files acc out w1
         | (Inr s, w1) \<Rightarrow>
             (case stat E w1 fullPath of
                (Inl e, w2) \<Rightarrow> removeFiles E projectPath files acc (out @ [warning e]) w2
              | (Inr fileStat, w2) \<Rightarrow>
                  (case unlink E w2 fullPath of
                     (Inl e, w3) \<Rightarrow>
                       removeFiles E projectPath files
                         (acc\<lparr>freedSpace := freedSpace acc + st_size fileStat\<rparr>)
                         (out @ [warning e]) w3
                   | (Inr u, w3) \<Rightarrow>
                       removeFiles E projectPath files
                         (acc\<lparr>freedSpace := freedSpace acc + st_size fileStat,
                              removedFiles := removedFiles acc @ [path file]\<rparr>)
                         out w3)))"

text \<open>
  \<^verbatim>\<open>removeEmptyDirectories\<close> descends into every directory entry; nothing in the code
  bounds the descent, so the model takes the depth it may reach as fuel and returns
  \<open>None\<close> when that is used up. \<open>pruneEntries\<close> is its \<^verbatim>\<open>for\<close> loop, with \<^verbatim>\<open>isEmpty\<close>.
\<close>

fun removeEmptyDirectories :: "nat \<Rightarrow> 'w env \<Rightarrow> path \<Rightarrow> 'w \<Rightarrow> ((error + bool) \<times> 'w) option"
  and pruneEntries :: "nat \<Rightarrow> 'w env \<Rightarrow> path \<Rightarrow> string list \<Rightarrow> bool \<Rightarrow> 'w \<Rightarrow> ((error + bool) \<times> 'w) option" where
  "removeEmptyDirectories 0 E directory w = None"
| "removeEmptyDirectories (Suc k) E directory w =
     (case readdir E w directory of
        (Inl e, w1) \<Rightarrow> Some (Inl e, w1)
      | (Inr files, w1) \<Rightarrow>
          if files = [] then
            (case rmdir E w1 directory of
               (Inl e, w2) \<Rightarrow> Some (Inl e, w2)
             | (Inr u, w2) \<Rightarrow> Some (Inr True, w2))
          else
            (case pruneEntries k E directory files True w1 of
               None \<Rightarrow> None
             | Some (Inl e, w2) \<Rightarrow> Some (Inl e, w2)
             | Some (Inr isEmpty, w2) \<Rightarrow>
                 if isEmpty then
                   (case rmdir E w2 directory of
                      (Inl e, w3) \<Rightarrow> Some (Inl e, w3)
                    | (Inr u, w3) \<Rightarrow> Some (Inr True, w3))
                 else Some (Inr False, w2)))"
| "pruneEntries k E directory [] isEmpty w = Some (Inr isEmpty, w)"
| "pruneEntries k E directory (file # files) isEmpty w =
     (let fullPath = join [directory, file]
      in case stat E w fullPath of
           (Inl e, w1) \<Rightarrow> Some (Inl e, w1)
         | (Inr s, w1) \<Rightarrow>
             if st_isDirectory s then
               (case removeEmptyDirectories k E fullPath w1 of
                  None \<Rightarrow> None
                | Some (Inl e, w2) \<Rightarrow> Some (Inl e, w2)
                | Some (Inr removed, w2) \<Rightarrow>
                    pruneEntries k E directory files (if \<not> removed then False else isEmpty) w2)
             else pruneEntries k E directory files False w1)"

definition removeNodeModules ::
  "'w env \<Rightarrow> path \<Rightarrow> cleanup \<Rightarrow> string list \<Rightarrow> 'w \<Rightarrow> cleanup \<times> string list \<times> 'w" where
  "removeNodeModules E projectPath acc out w =
     (let nodeModulesPath = join [projectPath, ''node_modules'']
      in case stat E w nodeModulesPath of
           (Inl e, w1) \<Rightarrow> (acc, out, w1)
         | (Inr s, w1) \<Rightarrow>
             (case rm E w1 nodeModulesPath of
                (Inl e, w2) \<Rightarrow> (acc, out @ [''Warning: Could not remove node_modules directory''], w2)
              | (Inr u, w2) \<Rightarrow>
                  (acc\<lparr>removedDirs := removedDirs acc @ [''node_modules'']\<rparr>,
                   out @ [''node_modules directory removed''], w2)))"

definition npmInstall :: "'w env \<Rightarrow> path \<Rightarrow> string list \<Rightarrow> 'w \<Rightarrow> string list \<times> 'w" where
  "npmInstall E projectPath out w =
     (case execSync E w ''npm install'' projectPath of
        (Inl e, w1) \<Rightarrow> (out @ [''Warning: Could not update package-lock.json''], w1)
      | (Inr u, w1) \<Rightarrow> (out, w1))"

definition emptyCleanup :: cleanup where
  "emptyCleanup = \<lparr>removedDependencies = [], removedFiles = [], removedDirs = [], freedSpace = 0\<rparr>"

text \<open>
  \<^verbatim>\<open>cleanProject\<close>. The call of \<^verbatim>\<open>removeEmptyDirectories\<close> is not inside a \<^verbatim>\<open>try\<close>: when
  it throws, so does \<^verbatim>\<open>cleanProject\<close>. The console is returned beside the result.
\<close>

definition cleanProject ::
  "nat \<Rightarrow> 'w env \<Rightarrow> path \<Rightarrow> analysis \<Rightarrow> 'w \<Rightarrow> ((error + cleanup \<times> string list) \<times> 'w) option" where
  "cleanProject fuel E projectPath a w =
     (case removeDependencies E projectPath (unusedDependencies a) emptyCleanup [] w of
        (acc1, out1, w1) \<Rightarrow>
          (case removeFiles E projectPath (unusedFiles a) acc1 out1 w1 of
             (acc2, out2, w2) \<Rightarrow>
               (case removeEmptyDirectories fuel E projectPath w2 of
                  None \<Rightarrow> None
                | Some (Inl e, w3) \<Rightarrow> Some (Inl e, w3)
                | Some (Inr removed, w3) \<Rightarrow>
                    (case removeNodeModules E projectPath acc2 out2 w3 of
                       (acc3, out3, w4) \<Rightarrow>
                         (case npmInstall E projectPath out3 w4 of
                            (out4, w5) \<Rightarrow> Some (Inr (acc3, out4), w5))))))"

section \<open>An in-memory file system for concrete runs\<close>

text \<open>
  A small file system on which the program can be run: a list of paths with what is
  there, the paths that cannot be read or listed, and the paths that cannot be
  removed or written. \<open>stat\<close> needs no permission on the path itself.
\<close>

datatype inode = File string | Dir

record memfs =
  inodes :: "(path \<times> inode) list"
  unreadable :: "path list"
  readonly :: "path list"

definition statOf :: "inode \<Rightarrow> stats" where
  "statOf i =
     (case i of
        File content \<Rightarrow>
          \<lparr>st_size = length content, st_mtime = ''2024-01-01T00:00:00.000Z'', st_isDirectory = False\<rparr>
      | Dir \<Rightarrow>
          \<lparr>st_size = 4096, st_mtime = ''2024-01-01T00:00:00.000Z'', st_isDirectory = True\<rparr>)"

definition memReadFile :: "memfs \<Rightarrow> path \<Rightarrow> (error + string) \<times> memfs" where
  "memReadFile w p =
     (case map_of (inodes w) p of
        None \<Rightarrow> (Inl (Error ''ENOENT''), w)
      | Some Dir \<Rightarrow> (Inl (Error ''EISDIR''), w)
      | Some (File content) \<Rightarrow>
          if p \<in> set (unreadable w) then (Inl (Error ''EACCES''), w) else (Inr content, w))"

definition memStat :: "memfs \<Rightarrow> path \<Rightarrow> (error + stats) \<times> memfs" where
  "memStat w p =
     (case map_of (inodes w) p of
        None \<Rightarrow> (Inl (Error ''ENOENT''), w)
      | Some i \<Rightarrow> (Inr (statOf i), w))"

definition endsWith :: "string \<Rightarrow> string \<Rightarrow> bool" where
  "endsWith s x = startsWith (rev s) (rev x)"

definition sourceExtensions :: "string list" where
  "sourceExtensions = [''.js'', ''.jsx'', ''.ts'', ''.tsx'']"

text \<open>
  The two patterns the program uses: the source pattern keeps the paths with one of
  the four extensions, \<^verbatim>\<open>**/*\<close> keeps all; a path with a segment named in an ignore
  pattern is dropped, and so is a path with a segment below \<^verbatim>\<open>cwd\<close> that starts with a
  dot (the option \<^verbatim>\<open>dot\<close> is not set). The matches come in the order of the list.
\<close>

definition hidden :: "path \<Rightarrow> path \<Rightarrow> bool" where
  "hidden dir p = list_ex (\<lambda>s. startsWith s ''.'') (split (drop (length dir) p))"

definition ignored :: "string list \<Rightarrow> path \<Rightarrow> bool" where
  "ignored ignore p =
     list_ex (\<lambda>g. list_ex (\<lambda>s. s \<noteq> ''**'' \<and> s \<in> set (split p)) (split g)) ignore"

definition memGlob :: "memfs \<Rightarrow> string \<Rightarrow> string list \<Rightarrow> path \<Rightarrow> bool \<Rightarrow> (error + path list) \<times> memfs" where
  "memGlob w pattern ignore dir nodir =
     (Inr (map fst (filter (\<lambda>q.
         startsWith (fst q) (dir @ ''/'')
         \<and> (if nodir then snd q \<noteq> Dir else True)
         \<and> (if pattern = sourcePattern then list_ex (endsWith (fst q)) sourceExtensions else True)
         \<and> \<not> ignored ignore (fst q)
         \<and> \<not> hidden dir (fst q)) (inodes w))), w)"

definition memWriteFile :: "memfs \<Rightarrow> path \<Rightarrow> string \<Rightarrow> (error + unit) \<times> memfs" where
  "memWriteFile w p content =
     (if p \<in> set (readonly w) then (Inl (Error ''EACCES''), w)
      else (Inr (), w\<lparr>inodes := (p, File content) # filter (\<lambda>q. fst q \<noteq> p) (inodes w)\<rparr>))"

definition memUnlink :: "memfs \<Rightarrow> path \<Rightarrow> (error + unit) \<times> memfs" where
  "memUnlink w p =
     (case map_of (inodes w) p of
        None \<Rightarrow> (Inl (Error ''ENOENT''), w)
      | Some Dir \<Rightarrow> (Inl (Error ''EISDIR''), w)
      | Some (File content) \<Rightarrow>
          if p \<in> set (readonly w) then (Inl (Error ''EACCES''), w)
          else (Inr (), w\<lparr>inodes := filter (\<lambda>q. fst q \<noteq> p) (inodes w)\<rparr>))"

definition memRm :: "memfs \<Rightarrow> path \<Rightarrow> (error + unit) \<times> memfs" where
  "memRm w p =
     (if map_of (inodes w) p = None then (Inl (Error ''ENOENT''), w)
      else if p \<in> set (readonly w) then (Inl (Error ''EACCES''), w)
      else (Inr (), w\<lparr>inodes := filter (\<lambda>q. fst q \<noteq> p \<and> \<not> startsWith (fst q) (p @ ''/'')) (inodes w)\<rparr>))"

definition children :: "memfs \<Rightarrow> path \<Rightarrow> string list" where
  "children w d =
     map (\<lambda>q. drop (Suc (length d)) (fst q))
       (filter (\<lambda>q. startsWith (fst q) (d @ ''/'') \<and> dirname (fst q) = d) (inodes w))"

definition memReaddir :: "memfs \<Rightarrow> path \<Rightarrow> (error + string list) \<times> memfs" where
  "memReaddir w d =
     (case map_of (inodes w) d of
        None \<Rightarrow> (Inl (Error ''ENOENT''), w)
      | Some (File content) \<Rightarrow> (Inl (Error ''ENOTDIR''), w)
      | Some Dir \<Rightarrow>
          if d \<in> set (unreadable w) then (Inl (Error ''EACCES''), w)
          else (Inr (children w d), w))"

definition memRmdir :: "memfs \<Rightarrow> path \<Rightarrow> (error + unit) \<times> memfs" where
  "memRmdir w d =
     (case map_of (inodes w) d of
        None \<Rightarrow> (Inl (Error ''ENOENT''), w)
      | Some (File content) \<Rightarrow> (Inl (Error ''ENOTDIR''), w)
      | Some Dir \<Rightarrow>
          if children w d \<noteq> [] then (Inl (Error ''ENOTEMPTY''), w)
          else if d \<in> set (readonly w) then (Inl (Error ''EACCES''), w)
          else (Inr (), w\<lparr>inodes := filter (\<lambda>q. fst q \<noteq> d) (inodes w)\<rparr>))"

text \<open>
  The decoders are tables: the manifest texts and the source texts of the runs below,
  each with what \<^verbatim>\<open>JSON.parse\<close> and acorn make of it; any other text is a syntax error.
  \<^verbatim>\<open>npm install\<close> succeeds and changes nothing.
\<close>

definition memEnv :: "(string \<times> package_json) list \<Rightarrow> (string \<times> node list) list \<Rightarrow> memfs env" where
  "memEnv manifests sources =
     \<lparr>cwd = ''/'',
      readFile = memReadFile,
      stat = memStat,
      glob = memGlob,
      writeFile = memWriteFile,
      unlink = memUnlink,
      rm = memRm,
      readdir = memReaddir,
      rmdir = memRmdir,
      execSync = (\<lambda>w command dir. (Inr (), w)),
      parseJSON = (\<lambda>t. case map_of manifests t of
                          None \<Rightarrow> Inl (Error ''Unexpected token'')
                        | Some j \<Rightarrow> Inr j),
      stringifyJSON = (\<lambda>j. case find (\<lambda>m. snd m = j) manifests of
                              None \<Rightarrow> ''{}''
                            | Some m \<Rightarrow> fst m),
      parse = (\<lambda>t. case map_of sources t of
                      None \<Rightarrow> Inl (Error ''Unexpected token'')
                    | Some ns \<Rightarrow> Inr ns)\<rparr>"

definition manifestText :: string where
  "manifestText = ''{\"dependencies\":{\"lodash\":\"^4.17.21\",\"@scope/pkg\":\"^1.0.0\"}}''"

definition manifests :: "(string \<times> package_json) list" where
  "manifests =
     [(manifestText,
       \<lparr>dependencies = Some [(''lodash'', ''^4.17.21''), (''@scope/pkg'', ''^1.0.0'')],
        devDependencies = None\<rparr>),
      (''{}'', \<lparr>dependencies = None, devDependencies = None\<rparr>)]"

definition require :: "expression list \<Rightarrow> node" where
  "require arguments = CallExpression (Some ''require'') arguments"

definition sources :: "(string \<times> node list) list" where
  "sources =
     [(''export const a = 1;'', []),
      (''import { a } from './a.js';'', [ImportDeclaration ''./a.js'']),
      (''import { b } from './b';'', [ImportDeclaration ''./b'']),
      (''import x from '@scope/pkg';'', [ImportDeclaration ''@scope/pkg'']),
      (''require(42); require('lodash');'',
         [require [Literal (JNumber 42)], require [Literal (JString ''lodash'')]]),
      (''require('lodash'); require(42);'',
         [require [Literal (JString ''lodash'')], require [Literal (JNumber 42)]]),
      (''require(42);'', [require [Literal (JNumber 42)]]),
      (''require(id);'', [require [OtherExpression]]),
      (''console.log(1);'', [CallExpression None [Literal (JNumber 1)]])]"

definition demoEnv :: "memfs env" where
  "demoEnv = memEnv manifests sources"

text \<open>
  The project \<^verbatim>\<open>/p\<close> with the given manifest text and entries, all permissions
  granted.
\<close>

definition project :: "string \<Rightarrow> (path \<times> inode) list \<Rightarrow> memfs" where
  "project manifest entries =
     \<lparr>inodes = (''/p'', Dir) # (''/p/package.json'', File manifest) # entries,
      unreadable = [], readonly = []\<rparr>"

text \<open>
  The runs. \<^verbatim>\<open>a.js\<close> imports nothing and \<^verbatim>\<open>b.js\<close> imports \<^verbatim>\<open>./a.js\<close>; the two projects
  differ in the order in which \<open>glob\<close> lists the files.
\<close>

definition importedFirst :: memfs where
  "importedFirst =
     project manifestText
       [(''/p/a.js'', File ''export const a = 1;''),
        (''/p/b.js'', File ''import { a } from './a.js';'')]"

definition importerFirst :: memfs where
  "importerFirst =
     project manifestText
       [(''/p/b.js'', File ''import { a } from './a.js';''),
        (''/p/a.js'', File ''export const a = 1;'')]"

definition abortedWalkProject :: memfs where
  "abortedWalkProject =
     project manifestText [(''/p/c.js'', File ''require(42); require('lodash');'')]"

definition abortedLateProject :: memfs where
  "abortedLateProject =
     project manifestText [(''/p/c.js'', File ''require('lodash'); require(42);'')]"

definition scopedProject :: memfs where
  "scopedProject = project manifestText [(''/p/s.js'', File ''import x from '@scope/pkg';'')]"

definition numberRequireProject :: memfs where
  "numberRequireProject = project manifestText [(''/p/n.js'', File ''require(42);'')]"

definition identifierRequireProject :: memfs where
  "identifierRequireProject = project manifestText [(''/p/n.js'', File ''require(id);'')]"

definition brokenFileProject :: memfs where
  "brokenFileProject =
     project manifestText
       [(''/p/a.js'', File ''export const a = 1;''),
        (''/p/bad.js'', File ''const = ;''),
        (''/p/b.js'', File ''import { a } from './a.js';'')]"

definition unreadableFileProject :: memfs where
  "unreadableFileProject =
     (project manifestText
        [(''/p/a.js'', File ''export const a = 1;''),
         (''/p/b.js'', File ''import { a } from './a.js';'')])\<lparr>unreadable := [''/p/b.js'']\<rparr>"

text \<open>A directory whose name ends in \<^verbatim>\<open>.js\<close>: the source pattern matches it.\<close>

definition directoryNamedProject :: memfs where
  "directoryNamedProject =
     project manifestText
       [(''/p/a.js'', File ''export const a = 1;''),
        (''/p/lib.js'', Dir),
        (''/p/lib.js/index.js'', File ''export const a = 1;'')]"



text \<open>
  Two projects without dependencies for \<^verbatim>\<open>cleanProject\<close>: one whose only source file
  cannot be removed, one with a directory that cannot be listed.
\<close>

definition protectedFileProject :: memfs where
  "protectedFileProject =
     (project ''{}'' [(''/p/old.js'', File ''export const a = 1;'')])\<lparr>readonly := [''/p/old.js'']\<rparr>"

definition lockedDirProject :: memfs where
  "lockedDirProject =
     (project ''{}''
        [(''/p/old.js'', File ''export const a = 1;''),
         (''/p/locked'', Dir),
         (''/p/node_modules'', Dir),
         (''/p/node_modules/lodash'', Dir),
         (''/p/node_modules/lodash/index.js'', File ''module.exports = {};'')])\<lparr>unreadable := [''/p/locked'']\<rparr>"

text \<open>
  Names for what a walk does with a node list: the callback throws at a \<^verbatim>\<open>require\<close>
  call whose first argument is a literal that is not a string; the nodes before the
  first such call are the ones visited; a node carries a specifier when it is an import
  declaration or a \<^verbatim>\<open>require\<close> call with a string literal; a specifier is external when
  it starts with neither \<^verbatim>\<open>.\<close> nor \<^verbatim>\<open>/\<close>.
\<close>

fun throws :: "node \<Rightarrow> bool" where
  "throws (ImportDeclaration s) = False"
| "throws (CallExpression callee arguments) =
     (callee = Some ''require'' \<and>
      (case arguments of
         Literal (JString s) # _ \<Rightarrow> False
       | Literal v # _ \<Rightarrow> True
       | _ \<Rightarrow> False))"

fun specifier :: "node \<Rightarrow> string option" where
  "specifier (ImportDeclaration s) = Some s"
| "specifier (CallExpression callee arguments) =
     (if callee = Some ''require''
      then (case arguments of Literal (JString s) # _ \<Rightarrow> Some s | _ \<Rightarrow> None)
      else None)"

definition visited :: "node list \<Rightarrow> node list" where
  "visited ns = takeWhile (\<lambda>n. \<not> throws n) ns"

definition external :: "string \<Rightarrow> bool" where
  "external s = (\<not> startsWith s ''.'' \<and> \<not> startsWith s ''/'')"

definition externalNames :: "node list \<Rightarrow> string set" where
  "externalNames ns = set (map (\<lambda>s. hd (split s)) (filter external (List.map_filter specifier ns)))"




text \<open>
  What the command line prints of a run: the names of the unused dependencies and the
  paths of the unused files.
\<close>

definition report :: "(error + analysis \<times> string list) \<times> 'w \<Rightarrow> error + string list \<times> string list" where
  "report r =
     (case fst r of
        Inl e \<Rightarrow> Inl e
      | Inr (a, out) \<Rightarrow> Inr (map name (unusedDependencies a), map path (unusedFiles a)))"

section \<open>The analysis only reads\<close>

text \<open>
  Each loop of the analysis leaves the world as it found it, provided the calls it
  makes (\<open>readFile\<close>, \<open>stat\<close>, \<open>glob\<close>) do.
\<close>

lemma sumSizes_world:
  assumes "\<And>w p. snd (stat E w p) = w"
  shows "snd (sumSizes E files t w) = w"
proof (induction files arbitrary: t w)
  case Nil
  show ?case by simp
next
  case (Cons f fs)
  obtain r w1 where s: "stat E w f = (r, w1)" by (cases "stat E w f")
  moreover have "snd (stat E w f) = w" by (rule assms)
  ultimately have "w1 = w" by simp
  with s Cons show ?case by (cases r) simp_all
qed

lemma getFolderSize_world:
  assumes "\<And>w p. snd (stat E w p) = w"
      and "\<And>w pat ign d nd. snd (glob E w pat ign d nd) = w"
  shows "snd (getFolderSize E folderPath w) = w"
proof -
  obtain r w1 where g: "glob E w ''**/*'' [] folderPath True = (r, w1)"
    by (cases "glob E w ''**/*'' [] folderPath True")
  moreover have "snd (glob E w ''**/*'' [] folderPath True) = w" by (rule assms(2))
  ultimately have w1: "w1 = w" by simp
  show ?thesis
  proof (cases r)
    case (Inl e)
    with g w1 show ?thesis by (simp add: getFolderSize_def)
  next
    case (Inr files)
    obtain r2 w2 where s: "sumSizes E files 0 w = (r2, w2)" by (cases "sumSizes E files 0 w")
    moreover have "snd (sumSizes E files 0 w) = w" by (rule sumSizes_world[OF assms(1)])
    ultimately have "w2 = w" by simp
    with g w1 Inr s show ?thesis by (cases r2) (simp_all add: getFolderSize_def)
  qed
qed

lemma findUnusedDependencies_world:
  assumes "\<And>w p. snd (stat E w p) = w"
      and "\<And>w pat ign d nd. snd (glob E w pat ign d nd) = w"
  shows "snd (findUnusedDependencies E projectPath used entries w) = w"
proof (induction entries arbitrary: w)
  case Nil
  show ?case by simp
next
  case (Cons kv entries)
  obtain n v where kv: "kv = (n, v)" by (cases kv)
  obtain sz w1 where g: "getFolderSize E (join [projectPath, ''node_modules'', n]) w = (sz, w1)"
    by (cases "getFolderSize E (join [projectPath, ''node_modules'', n]) w")
  moreover have "snd (getFolderSize E (join [projectPath, ''node_modules'', n]) w) = w"
    by (rule getFolderSize_world[OF assms])
  ultimately have w1: "w1 = w" by simp
  obtain ds w2 where r: "findUnusedDependencies E projectPath used entries w = (ds, w2)"
    by (cases "findUnusedDependencies E projectPath used entries w")
  with Cons[of w] have "w2 = w" by simp
  with kv g w1 r show ?case by simp
qed

lemma analyzeFiles_world:
  assumes "\<And>w p. snd (readFile E w p) = w"
      and "\<And>w p. snd (stat E w p) = w"
  shows "snd (analyzeFiles E projectPath files sc w) = w"
proof (induction files arbitrary: sc w)
  case Nil
  show ?case by simp
next
  case (Cons f fs)
  obtain r w1 where rd: "readFile E w f = (r, w1)" by (cases "readFile E w f")
  moreover have "snd (readFile E w f) = w" by (rule assms(1))
  ultimately have w1: "w1 = w" by simp
  obtain r2 w2 where st: "stat E w f = (r2, w2)" by (cases "stat E w f")
  moreover have "snd (stat E w f) = w" by (rule assms(2))
  ultimately have w2: "w2 = w" by simp
  show ?case
  proof (cases r)
    case (Inl e)
    with rd w1 show ?thesis by simp
  next
    case (Inr content)
    with rd w1 st w2 Cons show ?thesis by (cases r2) simp_all
  qed
qed

text \<open>
  C7: \<^verbatim>\<open>analyzeProject\<close> performs no file system mutation. The only calls it makes on
  the world are \<open>readFile\<close>, \<open>stat\<close> and \<open>glob\<close>: whenever these three leave the world
  as it is, the world after the run is the world before it, whether the run returns a
  result or fails. Nothing is assumed of \<open>writeFile\<close>, \<open>unlink\<close>, \<open>rm\<close>, \<open>rmdir\<close> or
  \<open>execSync\<close>.
\<close>

theorem analyzeProject_world:
  assumes rd: "\<And>w p. snd (readFile E w p) = w"
      and st: "\<And>w p. snd (stat E w p) = w"
      and gl: "\<And>w pat ign d nd. snd (glob E w pat ign d nd) = w"
  shows "snd (analyzeProject E projectPath w) = w"
proof -
  have body: "snd (analyzeBody E projectPath w) = w"
  proof -
    obtain r1 w1 where a: "readFile E w (join [projectPath, ''package.json'']) = (r1, w1)"
      by (cases "readFile E w (join [projectPath, ''package.json''])")
    moreover have "snd (readFile E w (join [projectPath, ''package.json''])) = w" by (rule rd)
    ultimately have w1: "w1 = w" by simp
    obtain r2 w2 where b: "glob E w sourcePattern sourceIgnore projectPath False = (r2, w2)"
      by (cases "glob E w sourcePattern sourceIgnore projectPath False")
    moreover have "snd (glob E w sourcePattern sourceIgnore projectPath False) = w" by (rule gl)
    ultimately have w2: "w2 = w" by simp
    have c: "\<And>files. snd (analyzeFiles E projectPath files emptyScan w) = w"
      by (rule analyzeFiles_world[OF rd st])
    have d: "\<And>used entries. snd (findUnusedDependencies E projectPath used entries w) = w"
      by (rule findUnusedDependencies_world[OF st gl])
    show ?thesis
    proof (cases r1)
      case (Inl e)
      with a w1 show ?thesis by (simp add: analyzeBody_def)
    next
      case (Inr manifest)
      note r1 = this
      show ?thesis
      proof (cases "parseJSON E manifest")
        case (Inl e)
        with a w1 r1 show ?thesis by (simp add: analyzeBody_def)
      next
        case (Inr packageJson)
        note pj = this
        show ?thesis
        proof (cases r2)
          case (Inl e)
          with a w1 r1 pj b w2 show ?thesis by (simp add: analyzeBody_def)
        next
          case (Inr files)
          obtain r3 w3 where e: "analyzeFiles E projectPath files emptyScan w = (r3, w3)"
            by (cases "analyzeFiles E projectPath files emptyScan w")
          with c[of files] have w3: "w3 = w" by simp
          show ?thesis
          proof (cases r3)
            case (Inl err)
            with a w1 r1 pj b w2 Inr e w3 show ?thesis by (simp add: analyzeBody_def)
          next
            case (Inr sc)
            obtain ds w4 where f: "findUnusedDependencies E projectPath (usedDependencies sc)
                (allDependencies packageJson) w = (ds, w4)"
              by (cases "findUnusedDependencies E projectPath (usedDependencies sc)
                (allDependencies packageJson) w")
            with d[of "usedDependencies sc" "allDependencies packageJson"] have "w4 = w" by simp
            with a w1 r1 pj b w2 \<open>r2 = Inr files\<close> e w3 Inr f show ?thesis
              by (simp add: analyzeBody_def)
          qed
        qed
      qed
    qed
  qed
  obtain r w' where ab: "analyzeBody E projectPath w = (r, w')"
    by (cases "analyzeBody E projectPath w")
  with body have "w' = w" by simp
  with ab show ?thesis
    by (cases r) (simp_all add: analyzeProject_def split: error.splits)
qed

theorem analyzeProject_world_witness:
  "snd (analyzeProject demoEnv ''/p'' importedFirst) = importedFirst"
proof -
  have rd: "\<And>w p. snd (readFile demoEnv w p) = w"
    by (simp add: demoEnv_def memEnv_def memReadFile_def split: option.splits inode.splits)
  have st: "\<And>w p. snd (stat demoEnv w p) = w"
    by (simp add: demoEnv_def memEnv_def memStat_def split: option.splits)
  have gl: "\<And>w pat ign d nd. snd (glob demoEnv w pat ign d nd) = w"
    by (simp add: demoEnv_def memEnv_def memGlob_def)
  show ?thesis
    by (rule analyzeProject_world[OF rd st gl])
qed

section \<open>Files that fail to parse\<close>

lemma analyzeFiles_append:
  "analyzeFiles E projectPath xs sc w = (Inr sc1, w1) \<Longrightarrow>
   analyzeFiles E projectPath (xs @ ys) sc w = analyzeFiles E projectPath ys sc1 w1"
proof (induction xs arbitrary: sc w)
  case Nil
  then show ?case by simp
next
  case (Cons f fs)
  obtain r wa where rd: "readFile E w f = (r, wa)" by (cases "readFile E w f")
  show ?case
  proof (cases r)
    case (Inl e)
    with rd Cons.prems show ?thesis by simp
  next
    case (Inr content)
    note r = this
    obtain r2 wb where st: "stat E wa f = (r2, wb)" by (cases "stat E wa f")
    show ?thesis
    proof (cases r2)
      case (Inl e)
      with rd r st Cons.prems show ?thesis by simp
    next
      case (Inr fileStat)
      with rd r st Cons.prems
      have "analyzeFiles E projectPath fs (analyzeSource E projectPath f content fileStat sc) wb = (Inr sc1, w1)"
        by simp
      from Cons.IH[OF this] rd r st Inr show ?thesis by simp
    qed
  qed
qed

text \<open>
  C4: a candidate file whose parse fails contributes nothing and does not stop the
  analysis. When the loop reaches such a file (its text and metadata read), the
  iteration only prints a warning: the loop goes on with the remaining files from
  the same \<open>usedDependencies\<close>, \<open>fileImports\<close> and \<open>unusedFilesAcc\<close>, so the file is
  neither pushed to the unused files nor a source of any used dependency or import
  target.
\<close>

theorem parse_failure_skips_file:
  assumes before: "analyzeFiles E projectPath xs sc w = (Inr sc1, w1)"
      and rd: "readFile E w1 file = (Inr content, w2)"
      and st: "stat E w2 file = (Inr fileStat, w3)"
      and failed: "parse E content = Inl e"
  shows "analyzeFiles E projectPath (xs @ file # ys) sc w
         = analyzeFiles E projectPath ys (sc1\<lparr>console := console sc1 @ [parseWarning file e]\<rparr>) w3"
proof -
  have "analyzeSource E projectPath file content fileStat sc1
        = sc1\<lparr>console := console sc1 @ [parseWarning file e]\<rparr>"
    using failed by (simp add: analyzeSource_def warn_def)
  with rd st have "analyzeFiles E projectPath (file # ys) sc1 w1
        = analyzeFiles E projectPath ys (sc1\<lparr>console := console sc1 @ [parseWarning file e]\<rparr>) w3"
    by simp
  with analyzeFiles_append[OF before, of "file # ys"] show ?thesis by simp
qed

theorem parse_failure_skips_file_witness:
  "analyzeFiles demoEnv ''/p'' ([''/p/a.js''] @ ''/p/bad.js'' # [''/p/b.js'']) emptyScan brokenFileProject
   = analyzeFiles demoEnv ''/p'' [''/p/b.js'']
       (emptyScan\<lparr>unusedFilesAcc :=
            [\<lparr>path = ''a.js'', lastModified = ''2024-01-01T00:00:00.000Z'', sizeBytes = 19\<rparr>],
          console := [parseWarning ''/p/bad.js'' (Error ''Unexpected token'')]\<rparr>)
       brokenFileProject"
proof -
  let ?sc1 = "emptyScan\<lparr>unusedFilesAcc :=
            [\<lparr>path = ''a.js'', lastModified = ''2024-01-01T00:00:00.000Z'', sizeBytes = 19\<rparr>]\<rparr>"
  have before: "analyzeFiles demoEnv ''/p'' [''/p/a.js''] emptyScan brokenFileProject
     = (Inr ?sc1, brokenFileProject)"
    by (simp add: brokenFileProject_def demoEnv_def memEnv_def memReadFile_def memStat_def
          project_def statOf_def analyzeSource_def sources_def emptyScan_def startsWith_def)
  have rd: "readFile demoEnv brokenFileProject ''/p/bad.js'' = (Inr ''const = ;'', brokenFileProject)"
    by code_simp
  have st: "stat demoEnv brokenFileProject ''/p/bad.js''
     = (Inr (statOf (File ''const = ;'')), brokenFileProject)"
    by code_simp
  have failed: "parse demoEnv ''const = ;'' = Inl (Error ''Unexpected token'')"
    by code_simp
  have "console ?sc1 = []"
    by (simp add: emptyScan_def)
  with parse_failure_skips_file[OF before rd st failed, of "[''/p/b.js'']"]
  show ?thesis by (simp add: emptyScan_def)
qed

section \<open>Files that cannot be read\<close>

text \<open>
  Reading a candidate file's text or metadata is outside the inner \<^verbatim>\<open>try\<close>. When the
  manifest is read and decoded, the files are listed, the files before \<open>file\<close> are
  analysed and \<open>readFile\<close> or \<open>stat\<close> throws on \<open>file\<close>, the analysis ends with the error
  \<^verbatim>\<open>Failed to analyze project: <message>\<close> and returns no result.
\<close>

lemma read_failure_is_fatal:
  assumes manifest: "readFile E w (join [projectPath, ''package.json'']) = (Inr manifest, w1)"
      and decoded: "parseJSON E manifest = Inr packageJson"
      and found: "glob E w1 sourcePattern sourceIgnore projectPath False = (Inr (xs @ file # ys), w2)"
      and before: "analyzeFiles E projectPath xs emptyScan w2 = (Inr sc, w3)"
      and failure: "readFile E w3 file = (Inl (Error m), w4) \<or>
                    (\<exists>content w'. readFile E w3 file = (Inr content, w') \<and> stat E w' file = (Inl (Error m), w4))"
  shows "analyzeProject E projectPath w = (Inl (Error (''Failed to analyze project: '' @ m)), w4)"
proof -
  from failure have "analyzeFiles E projectPath (file # ys) sc w3 = (Inl (Error m), w4)"
    by auto
  with analyzeFiles_append[OF before, of "file # ys"]
  have "analyzeFiles E projectPath (xs @ file # ys) emptyScan w2 = (Inl (Error m), w4)"
    by simp
  with manifest decoded found show ?thesis
    by (simp add: analyzeProject_def analyzeBody_def)
qed

text \<open>
  C5: a failure to read one candidate file is not scoped to that file. In the first
  project \<^verbatim>\<open>/p/b.js\<close> cannot be read; in the second \<^verbatim>\<open>/p/lib.js\<close> is a directory, which
  the source pattern matches and \<open>readFile\<close> refuses. Both runs end with the error and
  return no result, although \<^verbatim>\<open>/p/a.js\<close> is readable in both.
\<close>

theorem unreadable_file_aborts_analysis:
  "analyzeProject demoEnv ''/p'' unreadableFileProject
   = (Inl (Error ''Failed to analyze project: EACCES''), unreadableFileProject) \<and>
   analyzeProject demoEnv ''/p'' directoryNamedProject
   = (Inl (Error ''Failed to analyze project: EISDIR''), directoryNamedProject)"
  by code_simp

section \<open>Resolution keeps the last segment of a specifier\<close>

text \<open>
  From whatever importing file and working directory, the specifier \<^verbatim>\<open>./b\<close> with a
  plain name \<open>b\<close> resolves to a path whose last segment is \<open>b\<close>.
\<close>

lemma split_not_Nil: "split s \<noteq> []"
  by (induction s) (auto split: list.splits)

lemma split_append_separator: "split (xs @ CHR ''/'' # ys) = split xs @ split ys"
proof (induction xs)
  case Nil
  show ?case by simp
next
  case (Cons x xs)
  obtain s ss where "split xs = s # ss"
    using split_not_Nil[of xs] by (cases "split xs") auto
  with Cons show ?case by simp
qed

lemma split_plain: "CHR ''/'' \<notin> set b \<Longrightarrow> split b = [b]"
  by (induction b) auto

lemma resolvePaths_prefix:
  "\<exists>P. fst (resolvePaths ps acc) = P @ acc \<and> (P = [] \<or> last P = CHR ''/'')"
proof (induction ps arbitrary: acc)
  case Nil
  show ?case by simp
next
  case (Cons p ps)
  show ?case
  proof (cases "p = []")
    case True
    with Cons[of acc] show ?thesis by simp
  next
    case False
    note p = this
    show ?thesis
    proof (cases "hd p = CHR ''/''")
      case True
      have "fst (resolvePaths (p # ps) acc) = (p @ ''/'') @ acc" using p True by simp
      moreover have "last (p @ ''/'') = CHR ''/''" by simp
      ultimately show ?thesis by blast
    next
      case False
      from Cons[of "p @ CHR ''/'' # acc"] obtain P where
        P: "fst (resolvePaths ps (p @ CHR ''/'' # acc)) = P @ p @ CHR ''/'' # acc" by auto
      have "fst (resolvePaths (p # ps) acc) = (P @ p @ ''/'') @ acc" using p False P by simp
      moreover have "last (P @ p @ ''/'') = CHR ''/''" by simp
      ultimately show ?thesis by blast
    qed
  qed
qed

lemma normalizeSegments_append:
  "\<exists>res'. normalizeSegments a res (xs @ ys) = normalizeSegments a res' ys"
proof (induction xs arbitrary: res)
  case Nil
  show ?case by auto
next
  case (Cons x xs)
  show ?case
    using Cons[of res] Cons[of "x # res"] Cons[of "[''..'']"] Cons[of "[]"]
      Cons[of "''..'' # res"] Cons[of "tl res"]
    by (cases res) auto
qed

lemma joinSegments_snoc:
  "\<exists>W. joinSegments (ys @ [b]) = W @ b \<and> (W = [] \<or> last W = CHR ''/'')"
proof (induction ys)
  case Nil
  show ?case by simp
next
  case (Cons y ys)
  then obtain W where W: "joinSegments (ys @ [b]) = W @ b" by auto
  obtain z zs where "ys @ [b] = z # zs" by (cases "ys @ [b]") auto
  with W have "joinSegments ((y # ys) @ [b]) = (y @ CHR ''/'' # W) @ b" by simp
  moreover have "y @ CHR ''/'' # W = [] \<or> last (y @ CHR ''/'' # W) = CHR ''/''"
    using Cons W by (cases "W = []") auto
  ultimately show ?case by blast
qed

lemma resolve_relative_name:
  assumes b: "b \<noteq> []" "CHR ''/'' \<notin> set b" "b \<noteq> ''.''" "b \<noteq> ''..''"
  shows "\<exists>Z. resolve wd [d, ''./'' @ b] = Z @ b \<and> (Z = [] \<or> last Z = CHR ''/'')"
proof -
  let ?spec = "''./'' @ b"
  have step: "resolvePaths (rev [d, ?spec] @ [wd]) [] = resolvePaths [d, wd] (?spec @ ''/'')"
    by simp
  obtain P where P: "fst (resolvePaths [d, wd] (?spec @ ''/'')) = P @ ?spec @ ''/''"
    and Plast: "P = [] \<or> last P = CHR ''/''"
    using resolvePaths_prefix[of "[d, wd]" "?spec @ ''/''"] by auto
  obtain resolvedPath resolvedAbsolute
    where r: "resolvePaths [d, wd] (?spec @ ''/'') = (resolvedPath, resolvedAbsolute)"
    by (cases "resolvePaths [d, wd] (?spec @ ''/'')")
  with P have rp: "resolvedPath = P @ ?spec @ ''/''" by simp
  have tail: "split (?spec @ ''/'') = [''.'', b, []]"
  proof -
    have "split (''.'' @ CHR ''/'' # (b @ CHR ''/'' # [])) = split ''.'' @ split (b @ CHR ''/'' # [])"
      by (rule split_append_separator)
    also have "split (b @ CHR ''/'' # []) = split b @ split []"
      by (rule split_append_separator)
    finally show ?thesis using b(2) by (simp add: split_plain)
  qed
  have "\<exists>X. split resolvedPath = X @ [''.'', b, []]"
  proof (cases "P = []")
    case True
    with rp tail show ?thesis by auto
  next
    case False
    with Plast obtain Q where "P = Q @ ''/''"
      by (metis append_butlast_last_id)
    with rp have "resolvedPath = Q @ CHR ''/'' # (?spec @ ''/'')" by simp
    then have "split resolvedPath = split Q @ split (?spec @ ''/'')"
      by (simp only: split_append_separator)
    with tail show ?thesis by auto
  qed
  then obtain X where X: "split resolvedPath = X @ [''.'', b, []]" ..
  obtain res' where
    "normalizeSegments (\<not> resolvedAbsolute) [] (X @ [''.'', b, []])
     = normalizeSegments (\<not> resolvedAbsolute) res' [''.'', b, []]"
    using normalizeSegments_append by blast
  with b have n: "normalizeSegments (\<not> resolvedAbsolute) [] (split resolvedPath) = rev res' @ [b]"
    using X by simp
  obtain W where W: "joinSegments (rev res' @ [b]) = W @ b" and Wlast: "W = [] \<or> last W = CHR ''/''"
    using joinSegments_snoc by blast
  have ns: "normalizeString resolvedPath (\<not> resolvedAbsolute) = W @ b"
    using n W by (simp add: normalizeString_def)
  have res: "resolve wd [d, ?spec] = (if resolvedAbsolute then CHR ''/'' # W @ b else W @ b)"
    using step r ns b(1) by (simp add: resolve_def)
  show ?thesis
  proof (cases resolvedAbsolute)
    case True
    with res have "resolve wd [d, ?spec] = (CHR ''/'' # W) @ b" by simp
    moreover have "last (CHR ''/'' # W) = CHR ''/''" using Wlast by auto
    ultimately show ?thesis by blast
  next
    case False
    with res Wlast show ?thesis by auto
  qed
qed

lemma takeWhile_until_separator:
  "CHR ''/'' \<notin> set xs \<Longrightarrow> takeWhile (\<lambda>c. c \<noteq> CHR ''/'') (xs @ CHR ''/'' # ys) = xs"
  by (induction xs) auto

lemma takeWhile_no_separator:
  "CHR ''/'' \<notin> set xs \<Longrightarrow> takeWhile (\<lambda>c. c \<noteq> CHR ''/'') xs = xs"
  by (induction xs) auto

lemma last_segment_differs:
  assumes "Z = [] \<or> last Z = CHR ''/''" "CHR ''/'' \<notin> set b" "CHR ''/'' \<notin> set ext" "ext \<noteq> []"
  shows "Z @ b \<noteq> d @ ''/'' @ b @ ext"
proof
  assume eq: "Z @ b = d @ ''/'' @ b @ ext"
  let ?t = "\<lambda>s. takeWhile (\<lambda>c. c \<noteq> CHR ''/'') (rev s)"
  have l: "?t (Z @ b) = rev b"
  proof (cases "Z = []")
    case True
    with assms(2) show ?thesis by (simp add: takeWhile_no_separator)
  next
    case False
    with assms(1) have "hd (rev Z) = CHR ''/''" by (simp add: hd_rev)
    moreover from False have "rev Z \<noteq> []" by simp
    ultimately obtain zs where "rev Z = CHR ''/'' # zs" by (cases "rev Z") auto
    then have "rev (Z @ b) = rev b @ CHR ''/'' # zs" by simp
    moreover have "CHR ''/'' \<notin> set (rev b)" using assms(2) by simp
    ultimately show ?thesis using takeWhile_until_separator[of "rev b" zs] by simp
  qed
  have r: "?t (d @ ''/'' @ b @ ext) = rev ext @ rev b"
  proof -
    have "rev (d @ ''/'' @ b @ ext) = (rev ext @ rev b) @ CHR ''/'' # rev d" by simp
    moreover have "CHR ''/'' \<notin> set (rev ext @ rev b)" using assms(2,3) by simp
    ultimately show ?thesis using takeWhile_until_separator[of "rev ext @ rev b" "rev d"] by simp
  qed
  from eq l r have "rev b = rev ext @ rev b" by simp
  then have "length (rev b) = length (rev ext @ rev b)" by simp
  with assms(4) show False by simp
qed

lemma extensionless_target_differs:
  assumes "b \<noteq> []" "CHR ''/'' \<notin> set b" "b \<noteq> ''.''" "b \<noteq> ''..''"
      and "ext \<noteq> []" "CHR ''/'' \<notin> set ext"
  shows "resolve wd [dirname importer, ''./'' @ b] \<noteq> d @ ''/'' @ b @ ext"
proof -
  obtain Z where "resolve wd [dirname importer, ''./'' @ b] = Z @ b" "Z = [] \<or> last Z = CHR ''/''"
    using resolve_relative_name[OF assms(1-4)] by blast
  with last_segment_differs[of Z b ext d] assms show ?thesis by simp
qed

section \<open>What the dependency report contains\<close>

text \<open>
  A callback throws exactly at the nodes \<open>throws\<close> names; otherwise it adds the external
  names of the node. A walk therefore collects the external names of the nodes before
  the first throwing one, and the report lists the declared names that no walk has
  collected, in the order of the manifest.
\<close>

lemma visit_throws: "throws n \<Longrightarrow> \<exists>e. visit wd f n s = Inl e"
  by (cases n) (auto split: list.splits expression.splits jsvalue.splits)

lemma visit_usedDependencies:
  "\<not> throws n \<Longrightarrow> \<exists>sc' u'. visit wd f n (sc, u) = Inr (sc', u') \<and>
     usedDependencies sc' = usedDependencies sc \<union> externalNames [n]"
  by (cases n)
     (auto simp: track_def externalNames_def external_def
           split: list.splits expression.splits jsvalue.splits)

lemma externalNames_Cons: "externalNames (n # ns) = externalNames [n] \<union> externalNames ns"
  by (auto simp: externalNames_def split: option.splits)

lemma walk_usedDependencies:
  "usedDependencies (fst (snd (walk wd f ns (sc, u)))) = usedDependencies sc \<union> externalNames (visited ns)"
proof (induction ns arbitrary: sc u)
  case Nil
  show ?case by (simp add: visited_def externalNames_def)
next
  case (Cons n ns)
  show ?case
  proof (cases "throws n")
    case True
    then obtain e where "visit wd f n (sc, u) = Inl e" using visit_throws by blast
    with True show ?thesis by (simp add: visited_def externalNames_def)
  next
    case False
    then obtain sc' u' where v: "visit wd f n (sc, u) = Inr (sc', u')"
      and d: "usedDependencies sc' = usedDependencies sc \<union> externalNames [n]"
      using visit_usedDependencies by blast
    have "visited (n # ns) = n # visited ns" using False by (simp add: visited_def)
    then have "externalNames (visited (n # ns)) = externalNames [n] \<union> externalNames (visited ns)"
      using externalNames_Cons[of n "visited ns"] by simp
    with v d Cons[of sc' u'] show ?thesis by auto
  qed
qed

lemma analyzeSource_usedDependencies:
  "usedDependencies (analyzeSource E projectPath f content fileStat sc)
   = usedDependencies sc \<union>
       (case parse E content of Inl e \<Rightarrow> {} | Inr ns \<Rightarrow> externalNames (visited ns))"
proof (cases "parse E content")
  case (Inl e)
  then show ?thesis by (simp add: analyzeSource_def warn_def)
next
  case (Inr ns)
  obtain r sc' u' where w: "walk (cwd E) f ns (sc, False) = (r, sc', u')"
    by (cases "walk (cwd E) f ns (sc, False)")
  with walk_usedDependencies[of "cwd E" f ns sc False]
  have "usedDependencies sc' = usedDependencies sc \<union> externalNames (visited ns)" by simp
  with Inr w show ?thesis
    by (cases r) (simp_all add: analyzeSource_def warn_def)
qed

lemma findUnusedDependencies_names:
  "map name (fst (findUnusedDependencies E projectPath used entries w))
   = filter (\<lambda>n. n \<notin> used) (map fst entries)"
proof (induction entries arbitrary: w)
  case Nil
  show ?case by simp
next
  case (Cons kv entries)
  obtain n v where kv: "kv = (n, v)" by (cases kv)
  obtain sz w1 where g: "getFolderSize E (join [projectPath, ''node_modules'', n]) w = (sz, w1)"
    by (cases "getFolderSize E (join [projectPath, ''node_modules'', n]) w")
  obtain ds w2 where r: "findUnusedDependencies E projectPath used entries w1 = (ds, w2)"
    by (cases "findUnusedDependencies E projectPath used entries w1")
  from Cons[of w1] r have "map name ds = filter (\<lambda>n. n \<notin> used) (map fst entries)" by simp
  with kv g r Cons[of w] show ?case by simp
qed

lemma assign_keys: "fst ` set (assign obj kv) = insert (fst kv) (fst ` set obj)"
  by (induction obj) auto

lemma foldl_assign_keys: "fst ` set (foldl assign obj kvs) = fst ` set obj \<union> fst ` set kvs"
proof (induction kvs arbitrary: obj)
  case Nil
  show ?case by simp
next
  case (Cons kv kvs)
  have "fst ` set (foldl assign (assign obj kv) kvs) = fst ` set (assign obj kv) \<union> fst ` set kvs"
    by (rule Cons)
  then show ?case by (simp add: assign_keys)
qed

lemma allDependencies_keys:
  "fst ` set (allDependencies packageJson)
   = (case dependencies packageJson of None \<Rightarrow> {} | Some kvs \<Rightarrow> fst ` set kvs) \<union>
     (case devDependencies packageJson of None \<Rightarrow> {} | Some kvs \<Rightarrow> fst ` set kvs)"
proof -
  have "set (objectEntries obj) = set obj" for obj
    by (auto simp: objectEntries_def)
  then show ?thesis
    by (simp add: allDependencies_def spread_def foldl_assign_keys split: option.splits)
qed

section \<open>Resolution against the importing file's directory\<close>



















section \<open>Enough fuel\<close>

text \<open>
  A run of \<^verbatim>\<open>removeEmptyDirectories\<close> that ends within some fuel ends in the same way
  with any more, and so does \<^verbatim>\<open>cleanProject\<close>: what is proved of a run with a given
  fuel holds of the program.
\<close>

lemma pruneEntries_more_fuel:
  assumes deeper: "\<And>d w r. removeEmptyDirectories k E d w = Some r \<Longrightarrow>
                     removeEmptyDirectories (Suc k) E d w = Some r"
  shows "pruneEntries k E directory files isEmpty w = Some r \<Longrightarrow>
         pruneEntries (Suc k) E directory files isEmpty w = Some r"
proof (induction files arbitrary: isEmpty w)
  case Nil
  then show ?case by simp
next
  case (Cons f fs)
  let ?p = "join [directory, f]"
  obtain r1 w1 where st: "stat E w ?p = (r1, w1)" by (cases "stat E w ?p")
  show ?case
  proof (cases r1)
    case (Inl e)
    with st Cons.prems show ?thesis by simp
  next
    case (Inr s)
    note r1 = this
    show ?thesis
    proof (cases "st_isDirectory s")
      case False
      with st r1 Cons.prems have "pruneEntries k E directory fs False w1 = Some r" by simp
      from Cons.IH[OF this] st r1 False show ?thesis by simp
    next
      case True
      note dir = this
      show ?thesis
      proof (cases "removeEmptyDirectories k E ?p w1")
        case None
        with st r1 dir Cons.prems show ?thesis by simp
      next
        case (Some res)
        note sub = this
        from deeper[OF Some] have sub': "removeEmptyDirectories (Suc k) E ?p w1 = Some res" .
        obtain r2 w2 where res: "res = (r2, w2)" by (cases res)
        show ?thesis
        proof (cases r2)
          case (Inl e)
          with st r1 dir sub res Cons.prems have "r = (Inl e, w2)" by simp
          with st r1 dir sub' res Inl show ?thesis by (simp del: removeEmptyDirectories.simps)
        next
          case (Inr removed)
          with st r1 dir sub res Cons.prems
          have "pruneEntries k E directory fs (if \<not> removed then False else isEmpty) w2 = Some r"
            by simp
          from Cons.IH[OF this] st r1 dir sub' res Inr show ?thesis
            by (simp del: removeEmptyDirectories.simps)
        qed
      qed
    qed
  qed
qed

lemma removeEmptyDirectories_more_fuel:
  "removeEmptyDirectories k E directory w = Some r \<Longrightarrow>
   removeEmptyDirectories (Suc k) E directory w = Some r"
proof (induction k arbitrary: directory w r)
  case 0
  then show ?case by simp
next
  case (Suc k)
  have step: "\<And>files isEmpty w' r'. pruneEntries k E directory files isEmpty w' = Some r' \<Longrightarrow>
         pruneEntries (Suc k) E directory files isEmpty w' = Some r'"
    by (rule pruneEntries_more_fuel) (rule Suc.IH)
  obtain r1 w1 where rd: "readdir E w directory = (r1, w1)" by (cases "readdir E w directory")
  show ?case
  proof (cases r1)
    case (Inl e)
    with rd Suc.prems show ?thesis by simp
  next
    case (Inr files)
    note r1 = this
    show ?thesis
    proof (cases "files = []")
      case True
      with rd r1 Suc.prems show ?thesis by simp
    next
      case False
      show ?thesis
      proof (cases "pruneEntries k E directory files True w1")
        case None
        with rd r1 False Suc.prems show ?thesis by simp
      next
        case (Some res)
        from step[OF Some] have "pruneEntries (Suc k) E directory files True w1 = Some res" .
        with rd r1 False Some Suc.prems show ?thesis
          by (simp del: pruneEntries.simps)
      qed
    qed
  qed
qed

lemma removeEmptyDirectories_enough_fuel:
  "removeEmptyDirectories k E directory w = Some r \<Longrightarrow>
   removeEmptyDirectories (k + n) E directory w = Some r"
  by (induction n) (simp_all add: removeEmptyDirectories_more_fuel del: removeEmptyDirectories.simps)

lemma cleanProject_enough_fuel:
  assumes "cleanProject k E projectPath a w = Some r"
  shows "cleanProject (k + n) E projectPath a w = Some r"
proof -
  obtain acc1 out1 w1 where d: "removeDependencies E projectPath (unusedDependencies a) emptyCleanup [] w = (acc1, out1, w1)"
    by (cases "removeDependencies E projectPath (unusedDependencies a) emptyCleanup [] w")
  obtain acc2 out2 w2 where f: "removeFiles E projectPath (unusedFiles a) acc1 out1 w1 = (acc2, out2, w2)"
    by (cases "removeFiles E projectPath (unusedFiles a) acc1 out1 w1")
  show ?thesis
  proof (cases "removeEmptyDirectories k E projectPath w2")
    case None
    with assms d f show ?thesis by (simp add: cleanProject_def)
  next
    case (Some res)
    from removeEmptyDirectories_enough_fuel[OF Some, of n]
    have "removeEmptyDirectories (k + n) E projectPath w2 = Some res" .
    with assms d f Some show ?thesis by (simp add: cleanProject_def)
  qed
qed

section \<open>Runs on which the code departs from its specification\<close>

text \<open>
  C1: \<^verbatim>\<open>a.js\<close> is imported by \<^verbatim>\<open>b.js\<close>. It is classified when the loop reaches it,
  against the imports collected so far: listed before \<^verbatim>\<open>b.js\<close> it is reported as
  unused, listed after it it is not.
\<close>

theorem classification_depends_on_order:
  "report (analyzeProject demoEnv ''/p'' importedFirst) = Inr ([''lodash'', ''@scope/pkg''], [''a.js'']) \<and>
   report (analyzeProject demoEnv ''/p'' importerFirst) = Inr ([''lodash'', ''@scope/pkg''], [])"
  by code_simp

text \<open>
  C2: \<^verbatim>\<open>c.js\<close> parses and contains \<^verbatim>\<open>require('lodash')\<close> after \<^verbatim>\<open>require(42)\<close>. The
  callback throws at the first call, the walk ends there, and \<^verbatim>\<open>lodash\<close> is reported
  as unused. With the two calls in the other order \<^verbatim>\<open>lodash\<close> is registered before the
  callback throws and is not reported, although the same warning is printed for the
  file.
\<close>

theorem reference_after_aborted_walk_is_lost:
  "fst (analyzeProject demoEnv ''/p'' abortedWalkProject)
   = Inr (\<lparr>unusedDependencies =
             [\<lparr>name = ''lodash'', version = ''^4.17.21'', depSize = 0\<rparr>,
              \<lparr>name = ''@scope/pkg'', version = ''^1.0.0'', depSize = 0\<rparr>],
           unusedFiles = []\<rparr>,
          [''Warning: Could not parse /p/c.js: requirePath.startsWith is not a function'']) \<and>
   fst (analyzeProject demoEnv ''/p'' abortedLateProject)
   = Inr (\<lparr>unusedDependencies =
             [\<lparr>name = ''@scope/pkg'', version = ''^1.0.0'', depSize = 0\<rparr>],
           unusedFiles = []\<rparr>,
          [''Warning: Could not parse /p/c.js: requirePath.startsWith is not a function''])"
  by code_simp

text \<open>
  C3: for the specifier \<^verbatim>\<open>@scope/pkg\<close> the name that is registered is \<^verbatim>\<open>@scope\<close>, and
  the declared dependency \<^verbatim>\<open>@scope/pkg\<close> is reported as unused although \<^verbatim>\<open>s.js\<close>
  imports it.
\<close>

theorem scoped_package_registered_as_scope:
  "usedDependencies (fst (track ''/'' ''/p/s.js'' ''@scope/pkg'' (emptyScan, False))) = {''@scope''} \<and>
   report (analyzeProject demoEnv ''/p'' scopedProject) = Inr ([''lodash'', ''@scope/pkg''], [''s.js''])"
  by (simp add: track_def startsWith_def emptyScan_def) code_simp

text \<open>
  C6: a file that consists of \<^verbatim>\<open>require(42)\<close> is not skipped silently: the callback
  throws, a warning is printed and the file is left out of the unused files. The same
  file with \<^verbatim>\<open>require(id)\<close> is reported as unused.
\<close>

theorem number_literal_require_throws:
  "fst (analyzeProject demoEnv ''/p'' numberRequireProject)
   = Inr (\<lparr>unusedDependencies =
             [\<lparr>name = ''lodash'', version = ''^4.17.21'', depSize = 0\<rparr>,
              \<lparr>name = ''@scope/pkg'', version = ''^1.0.0'', depSize = 0\<rparr>],
           unusedFiles = []\<rparr>,
          [''Warning: Could not parse /p/n.js: requirePath.startsWith is not a function'']) \<and>
   fst (analyzeProject demoEnv ''/p'' identifierRequireProject)
   = Inr (\<lparr>unusedDependencies =
             [\<lparr>name = ''lodash'', version = ''^4.17.21'', depSize = 0\<rparr>,
              \<lparr>name = ''@scope/pkg'', version = ''^1.0.0'', depSize = 0\<rparr>],
           unusedFiles =
             [\<lparr>path = ''n.js'', lastModified = ''2024-01-01T00:00:00.000Z'', sizeBytes = 12\<rparr>]\<rparr>,
          [])"
  by code_simp

text \<open>
  C8: \<^verbatim>\<open>old.js\<close> is reported as unused and cannot be removed. \<^verbatim>\<open>cleanProject\<close> adds
  its 19 bytes to \<^verbatim>\<open>freedSpace\<close> before \<^verbatim>\<open>unlink\<close> throws: the file stays, no file
  is listed as removed, and \<^verbatim>\<open>freedSpace\<close> is 19.
\<close>

theorem freedSpace_counts_failed_unlink:
  "analyzeProject demoEnv ''/p'' protectedFileProject
   = (Inr (\<lparr>unusedDependencies = [],
            unusedFiles =
              [\<lparr>path = ''old.js'', lastModified = ''2024-01-01T00:00:00.000Z'', sizeBytes = 19\<rparr>]\<rparr>,
           []), protectedFileProject) \<and>
   cleanProject (1 + n) demoEnv ''/p''
     \<lparr>unusedDependencies = [],
      unusedFiles =
        [\<lparr>path = ''old.js'', lastModified = ''2024-01-01T00:00:00.000Z'', sizeBytes = 19\<rparr>]\<rparr>
     protectedFileProject
   = Some (Inr (\<lparr>removedDependencies = [], removedFiles = [], removedDirs = [], freedSpace = 19\<rparr>,
                [''Warning: Could not remove file old.js: EACCES'']),
           protectedFileProject)"
proof -
  have analysed: "analyzeProject demoEnv ''/p'' protectedFileProject
   = (Inr (\<lparr>unusedDependencies = [],
            unusedFiles =
              [\<lparr>path = ''old.js'', lastModified = ''2024-01-01T00:00:00.000Z'', sizeBytes = 19\<rparr>]\<rparr>,
           []), protectedFileProject)"
    by code_simp
  have "cleanProject 1 demoEnv ''/p''
     \<lparr>unusedDependencies = [],
      unusedFiles =
        [\<lparr>path = ''old.js'', lastModified = ''2024-01-01T00:00:00.000Z'', sizeBytes = 19\<rparr>]\<rparr>
     protectedFileProject
   = Some (Inr (\<lparr>removedDependencies = [], removedFiles = [], removedDirs = [], freedSpace = 19\<rparr>,
                [''Warning: Could not remove file old.js: EACCES'']),
           protectedFileProject)"
    by code_simp
  from cleanProject_enough_fuel[OF this, of n] analysed show ?thesis
    by simp
qed

text \<open>
  C9: the directory \<^verbatim>\<open>/p/locked\<close> cannot be listed. \<^verbatim>\<open>removeEmptyDirectories\<close> throws
  there and \<^verbatim>\<open>cleanProject\<close> throws with it: no result is returned and \<^verbatim>\<open>node_modules\<close>
  is still there afterwards; \<^verbatim>\<open>old.js\<close> has been deleted before.
\<close>

theorem unlistable_directory_aborts_cleanup:
  "analyzeProject demoEnv ''/p'' lockedDirProject
   = (Inr (\<lparr>unusedDependencies = [],
            unusedFiles =
              [\<lparr>path = ''old.js'', lastModified = ''2024-01-01T00:00:00.000Z'', sizeBytes = 19\<rparr>]\<rparr>,
           []), lockedDirProject) \<and>
   cleanProject (2 + n) demoEnv ''/p''
     \<lparr>unusedDependencies = [],
      unusedFiles =
        [\<lparr>path = ''old.js'', lastModified = ''2024-01-01T00:00:00.000Z'', sizeBytes = 19\<rparr>]\<rparr>
     lockedDirProject
   = Some (Inl (Error ''EACCES''),
           (project ''{}''
              [(''/p/locked'', Dir),
               (''/p/node_modules'', Dir),
               (''/p/node_modules/lodash'', Dir),
               (''/p/node_modules/lodash/index.js'', File ''module.exports = {};'')])\<lparr>unreadable := [''/p/locked'']\<rparr>)"
proof -
  have analysed: "analyzeProject demoEnv ''/p'' lockedDirProject
   = (Inr (\<lparr>unusedDependencies = [],
            unusedFiles =
              [\<lparr>path = ''old.js'', lastModified = ''2024-01-01T00:00:00.000Z'', sizeBytes = 19\<rparr>]\<rparr>,
           []), lockedDirProject)"
    by code_simp
  have "cleanProject 2 demoEnv ''/p''
     \<lparr>unusedDependencies = [],
      unusedFiles =
        [\<lparr>path = ''old.js'', lastModified = ''2024-01-01T00:00:00.000Z'', sizeBytes = 19\<rparr>]\<rparr>
     lockedDirProject
   = Some (Inl (Error ''EACCES''),
           (project ''{}''
              [(''/p/locked'', Dir),
               (''/p/node_modules'', Dir),
               (''/p/node_modules/lodash'', Dir),
               (''/p/node_modules/lodash/index.js'', File ''module.exports = {};'')])\<lparr>unreadable := [''/p/locked'']\<rparr>)"
    by code_simp
  from cleanProject_enough_fuel[OF this, of n] analysed show ?thesis
    by simp
qed

end
